theory Spec2Isabelle
  imports Main "HOL-Library.Word"
begin

section \<open>Pixel Streaming to RTP bridge: signaling coordinator\<close>

text \<open>
  The program (\<^verbatim>\<open>main.go\<close>) talks to three collaborators whose code is not part of it:
  the JSON decoder, the WebRTC peer connection and the websocket. They are parameters of
  the model (the record \<open>env\<close>): every call of the source is a call of the corresponding
  field, and nothing is assumed about what they return. The peer connection is an object
  with hidden state, so its methods take the state \<open>'pc\<close> and return the new one next to
  the error. An error is its message (the text of \<^verbatim>\<open>err.Error()\<close>).

  What the program does to the outside is recorded, in the order it happens, in
  \<open>events\<close>: a line of the logger, a line on standard output, a text message written to
  the websocket, a method call on the peer connection, and the closing of the websocket.
\<close>

subsection \<open>Data\<close>

text \<open>\<^verbatim>\<open>webrtc.SessionDescription\<close>: the fields \<^verbatim>\<open>Type\<close> and \<^verbatim>\<open>SDP\<close>.\<close>

record SessionDescription =
  sdType :: string
  SDP :: string

text \<open>
  \<^verbatim>\<open>*webrtc.ICECandidate\<close> is an opaque descriptor; it is identified with the text the
  logger prints for it. \<^verbatim>\<open>webrtc.ICECandidateInit\<close> is what \<^verbatim>\<open>ToJSON\<close> makes of it.
\<close>

type_synonym ICECandidate = string
type_synonym ICECandidateInit = string

text \<open>\<^verbatim>\<open>type ueICECandidateResp struct\<close> (lines 63-66).\<close>

record ueICECandidateResp =
  respType :: string
  Candidate :: ICECandidateInit

datatype pc_call =
    CallSetLocalDescription SessionDescription
  | CallSetRemoteDescription SessionDescription
  | CallAddICECandidate ICECandidateInit
  | CallCreateAnswer

datatype event =
    Log string
  | Print string
  | Send string
  | Call pc_call
  | CloseWS

record 'pc env =
  Unmarshal_objmap :: "string \<Rightarrow> string + (string \<Rightarrow> string option)"
  Unmarshal_string :: "string \<Rightarrow> string + string"
  Unmarshal_int :: "string \<Rightarrow> string option \<times> int"
  Unmarshal_sdp :: "string \<Rightarrow> string + SessionDescription"
  Unmarshal_candidate :: "string \<Rightarrow> string + ICECandidateInit"
  Marshal_sdp :: "SessionDescription \<Rightarrow> string + string"
  Marshal_resp :: "ueICECandidateResp \<Rightarrow> string + string"
  ToJSON :: "ICECandidate \<Rightarrow> ICECandidateInit"
  SetLocalDescription :: "'pc \<Rightarrow> SessionDescription \<Rightarrow> string option \<times> 'pc"
  SetRemoteDescription :: "'pc \<Rightarrow> SessionDescription \<Rightarrow> string option \<times> 'pc"
  RemoteDescription :: "'pc \<Rightarrow> SessionDescription option"
  AddICECandidate :: "'pc \<Rightarrow> ICECandidateInit \<Rightarrow> string option \<times> 'pc"
  CreateAnswer :: "'pc \<Rightarrow> (string + SessionDescription) \<times> 'pc"
  WriteMessage :: "event list \<Rightarrow> string \<Rightarrow> string option"

text \<open>
  The state the handlers share: the peer connection, the slice \<^verbatim>\<open>pendingCandidates\<close> of
  \<^verbatim>\<open>main\<close> (line 426), and the record of effects.
\<close>

record 'pc world =
  pc :: 'pc
  pendingCandidates :: "ICECandidate list"
  events :: "event list"

definition emit :: "event \<Rightarrow> 'pc world \<Rightarrow> 'pc world" where
  "emit e w = w\<lparr>events := events w @ [e]\<rparr>"

text \<open>The text messages written to the websocket so far, oldest first.\<close>

fun sent_of :: "event list \<Rightarrow> string list" where
  "sent_of [] = []"
| "sent_of (Send m # es) = m # sent_of es"
| "sent_of (e # es) = sent_of es"

definition sent :: "'pc world \<Rightarrow> string list" where
  "sent w = sent_of (events w)"

text \<open>The method calls made on the peer connection so far, oldest first.\<close>

fun calls_of :: "event list \<Rightarrow> pc_call list" where
  "calls_of [] = []"
| "calls_of (Call c # es) = c # calls_of es"
| "calls_of (e # es) = calls_of es"

text \<open>Decimal printing, for the verb \<^verbatim>\<open>%d\<close> of \<^verbatim>\<open>fmt\<close>.\<close>

fun digits :: "nat \<Rightarrow> string" where
  "digits n = (if n < 10 then [char_of (48 + n)]
               else digits (n div 10) @ [char_of (48 + n mod 10)])"

declare digits.simps [simp del]

definition Sprintf_d :: "int \<Rightarrow> string" where
  "Sprintf_d i = (if i < 0 then ''-'' @ digits (nat (- i)) else digits (nat i))"

text \<open>Indexing a Go map with a key it does not hold gives the zero value, here no bytes.\<close>

definition lookup :: "(string \<Rightarrow> string option) \<Rightarrow> string \<Rightarrow> string" where
  "lookup m k = (case m k of None \<Rightarrow> [] | Some v \<Rightarrow> v)"

subsection \<open>Sending\<close>

text \<open>\<^verbatim>\<open>writeWSMessage\<close> (lines 71-76): a failed write is logged and nothing else.\<close>

definition writeWSMessage :: "'pc env \<Rightarrow> string \<Rightarrow> 'pc world \<Rightarrow> 'pc world" where
  "writeWSMessage E msg w =
     (case WriteMessage E (events w) msg of
        None \<Rightarrow> emit (Send msg) w
      | Some err \<Rightarrow> emit (Log (''Error writing websocket message:  '' @ err)) (emit (Send msg) w))"

text \<open>
  \<^verbatim>\<open>sendLocalIceCandidate\<close> (lines 246-259). When \<^verbatim>\<open>json.Marshal\<close> fails the error is
  logged and the (empty) payload is written all the same.
\<close>

definition ice_payload :: "'pc env \<Rightarrow> ICECandidate \<Rightarrow> string" where
  "ice_payload E c =
     (case Marshal_resp E \<lparr>respType = ''iceCandidate'', Candidate = ToJSON E c\<rparr> of
        Inl err \<Rightarrow> [] | Inr jsonPayload \<Rightarrow> jsonPayload)"

definition sendLocalIceCandidate :: "'pc env \<Rightarrow> ICECandidate \<Rightarrow> 'pc world \<Rightarrow> 'pc world" where
  "sendLocalIceCandidate E localIceCandidate w =
     (let respPayload = \<lparr>respType = ''iceCandidate'', Candidate = ToJSON E localIceCandidate\<rparr>;
          w1 = (case Marshal_resp E respPayload of
                  Inl err \<Rightarrow> emit (Log (''Error turning local ice candidate into JSON. Error: '' @ err)) w
                | Inr jsonPayload \<Rightarrow> w);
          jsonStr = ice_payload E localIceCandidate;
          w2 = writeWSMessage E jsonStr w1
      in emit (Print (''Sending our local ice candidate to UE...'' @ jsonStr)) w2)"

text \<open>The loop \<^verbatim>\<open>for _, localIceCandidate := range *pendingCandidates\<close> (lines 149-151).\<close>

fun send_each :: "'pc env \<Rightarrow> ICECandidate list \<Rightarrow> 'pc world \<Rightarrow> 'pc world" where
  "send_each E [] w = w"
| "send_each E (c # cs) w = send_each E cs (sendLocalIceCandidate E c w)"

subsection \<open>Handlers\<close>

text \<open>\<^verbatim>\<open>handleRemoteAnswer\<close> (lines 122-152).\<close>

definition handleRemoteAnswer :: "'pc env \<Rightarrow> string \<Rightarrow> 'pc world \<Rightarrow> 'pc world" where
  "handleRemoteAnswer E message w =
     (case Unmarshal_sdp E message of
        Inl unmarshalError \<Rightarrow>
          emit (Log (''Error occured during unmarshaling sdp. Error: '' @ unmarshalError)) w
      | Inr sdp \<Rightarrow>
          (case SetLocalDescription E (pc w) sdp of
             (Some sdpErr, pc1) \<Rightarrow>
               emit (Log (''Error occured setting local session description. Error: '' @ sdpErr))
                 (emit (Call (CallSetLocalDescription sdp)) (w\<lparr>pc := pc1\<rparr>))
           | (None, pc1) \<Rightarrow>
               (let w1 = emit (Log ''Success set local session description'')
                           (emit (Call (CallSetLocalDescription sdp)) (w\<lparr>pc := pc1\<rparr>))
                in case SetRemoteDescription E (pc w1) sdp of
                     (Some sdpErr, pc2) \<Rightarrow>
                       emit (Log (''Error occured setting remote session description. Error: '' @ sdpErr))
                         (emit (Call (CallSetRemoteDescription sdp)) (w1\<lparr>pc := pc2\<rparr>))
                   | (None, pc2) \<Rightarrow>
                       (let w2 = emit (Print ''Added session description from UE to Pion.'')
                                   (emit (Log ''Success set remote session description'')
                                      (emit (Call (CallSetRemoteDescription sdp)) (w1\<lparr>pc := pc2\<rparr>)))
                        in send_each E (pendingCandidates w2) w2))))"

text \<open>\<^verbatim>\<open>handleRemoteIceCandidate\<close> (lines 157-172).\<close>

definition handleRemoteIceCandidate :: "'pc env \<Rightarrow> string \<Rightarrow> 'pc world \<Rightarrow> 'pc world" where
  "handleRemoteIceCandidate E message w =
     (case Unmarshal_candidate E message of
        Inl jsonErr \<Rightarrow> emit (Log (''Error unmarshaling ice candidate. Error: '' @ jsonErr)) w
      | Inr iceCandidateInit \<Rightarrow>
          (case AddICECandidate E (pc w) iceCandidateInit of
             (Some candidateErr, pc1) \<Rightarrow>
               emit (Log (''Error adding remote ice candidate. Error: '' @ candidateErr))
                 (emit (Call (CallAddICECandidate iceCandidateInit)) (w\<lparr>pc := pc1\<rparr>))
           | (None, pc1) \<Rightarrow>
               emit (Print ''Added remote ice candidate from UE'')
                 (emit (Call (CallAddICECandidate iceCandidateInit)) (w\<lparr>pc := pc1\<rparr>))))"

text \<open>
  \<^verbatim>\<open>createAnswer\<close> (lines 373-391) returns the answer string and the error. The error of
  \<^verbatim>\<open>SetLocalDescription\<close> is logged and then overwritten by the result of
  \<^verbatim>\<open>json.Marshal\<close> (line 384), so it is not returned.
\<close>

definition createAnswer :: "'pc env \<Rightarrow> 'pc world \<Rightarrow> (string \<times> string option) \<times> 'pc world" where
  "createAnswer E w =
     (case CreateAnswer E (pc w) of
        (Inl err, pc1) \<Rightarrow>
          (([], Some err),
           emit (Log (''Error creating peer connection answer:  '' @ err))
             (emit (Call CallCreateAnswer) (w\<lparr>pc := pc1\<rparr>)))
      | (Inr answer, pc1) \<Rightarrow>
          (let w1 = emit (Call CallCreateAnswer) (w\<lparr>pc := pc1\<rparr>);
               w2 = (case SetLocalDescription E (pc w1) answer of
                       (Some err, pc2) \<Rightarrow>
                         emit (Log (''Error setting remote description of peer connection:  '' @ err))
                           (emit (Call (CallSetLocalDescription answer)) (w1\<lparr>pc := pc2\<rparr>))
                     | (None, pc2) \<Rightarrow>
                         emit (Call (CallSetLocalDescription answer)) (w1\<lparr>pc := pc2\<rparr>))
           in case Marshal_sdp E answer of
                Inl err \<Rightarrow>
                  (([], Some err),
                   emit (Log (''Error unmarshalling json from offer object:  '' @ err)) w2)
              | Inr answerString \<Rightarrow> ((answerString, None), w2)))"

text \<open>\<^verbatim>\<open>sendAnswer\<close> (lines 393-404).\<close>

definition sendAnswer :: "'pc env \<Rightarrow> 'pc world \<Rightarrow> 'pc world" where
  "sendAnswer E w =
     (case createAnswer E w of
        ((answerString, Some err), w1) \<Rightarrow>
          emit (Log (''Error creating answer. Error: '' @ err)) w1
      | ((answerString, None), w1) \<Rightarrow>
          emit (Print answerString)
            (emit (Print ''Sending answer...'') (writeWSMessage E answerString w1)))"

text \<open>
  The callback given to \<^verbatim>\<open>OnICECandidate\<close> in \<^verbatim>\<open>main\<close> (lines 430-444); \<open>None\<close> is the
  nil candidate.
\<close>

definition OnICECandidate :: "'pc env \<Rightarrow> ICECandidate option \<Rightarrow> 'pc world \<Rightarrow> 'pc world" where
  "OnICECandidate E localIceCandidate w =
     (case localIceCandidate of
        None \<Rightarrow> emit (Log ''<nil>'') (emit (Log ''OnICECandidate'') w)
      | Some c \<Rightarrow>
          (let w1 = emit (Log c) (emit (Log ''OnICECandidate'') w)
           in case RemoteDescription E (pc w1) of
                None \<Rightarrow>
                  emit (Log ''Added local ICE candidate that we will send off later...'')
                    (w1\<lparr>pendingCandidates := pendingCandidates w1 @ [c]\<rparr>)
              | Some desc \<Rightarrow> sendLocalIceCandidate E c w1))"

subsection \<open>The receive loop\<close>

datatype flow = Continue | Return

definition colorGreen :: string where "colorGreen = CHR 0x1B # ''[32m''"
definition colorReset :: string where "colorReset = CHR 0x1B # ''[0m''"

text \<open>
  One turn of the loop of \<^verbatim>\<open>startControlLoop\<close> after a successful read (lines 185-240):
  the message type of the websocket frame and its bytes. \<open>Return\<close> is the statement
  \<^verbatim>\<open>return\<close> of line 230, which leaves the function and so the loop.
\<close>

definition control_step :: "'pc env \<Rightarrow> int \<times> string \<Rightarrow> 'pc world \<Rightarrow> flow \<times> 'pc world" where
  "control_step E rd w =
     (let messageType = fst rd; message = snd rd;
          w0 = emit (Print (colorGreen @ '' '' @ ''Received message, (type='' @ Sprintf_d messageType
                              @ ''): '' @ message @ '' '' @ colorReset)) w
      in case Unmarshal_objmap E message of
           Inl err \<Rightarrow>
             (Continue,
              emit (Log (''Error unmarshalling bytes from websocket message. Error: '' @ err)) w0)
         | Inr objmap \<Rightarrow>
             (case Unmarshal_string E (lookup objmap ''type'') of
                Inl err \<Rightarrow>
                  (Continue,
                   emit (Log (''Error unmarshaling type from pixel streaming message. Error: '' @ err)) w0)
              | Inr pixelStreamingMessageType \<Rightarrow>
                  if pixelStreamingMessageType = ''playerCount'' then
                    (let r = Unmarshal_int E (lookup objmap ''count'');
                         w1 = (case fst r of
                                 Some err \<Rightarrow> emit (Log (''Error unmarshaling player count. Error: '' @ err)) w0
                               | None \<Rightarrow> w0)
                     in (Continue, emit (Print (''Player count is: '' @ Sprintf_d (snd r))) w1))
                  else if pixelStreamingMessageType = ''config'' then
                    (Continue,
                     emit (Print ''Got config message, ToDO: react based on config that was passed.'') w0)
                  else if pixelStreamingMessageType = ''answer'' then
                    (Continue, handleRemoteAnswer E message w0)
                  else if pixelStreamingMessageType = ''iceCandidate'' then
                    (Continue, handleRemoteIceCandidate E (lookup objmap ''candidate'') w0)
                  else if pixelStreamingMessageType = ''offer'' then
                    (case Unmarshal_sdp E message of
                       Inl unmarshalError \<Rightarrow>
                         (Return,
                          emit (Log (''Error occured during unmarshaling sdp. Error: '' @ unmarshalError)) w0)
                     | Inr sdp \<Rightarrow>
                         (case SetRemoteDescription E (pc w0) sdp of
                            (Some err, pc1) \<Rightarrow>
                              (Continue,
                               sendAnswer E
                                 (emit (Log (''Error setting remote description of peer connection:  '' @ err))
                                    (emit (Call (CallSetRemoteDescription sdp)) (w0\<lparr>pc := pc1\<rparr>))))
                          | (None, pc1) \<Rightarrow>
                              (Continue,
                               sendAnswer E (emit (Call (CallSetRemoteDescription sdp)) (w0\<lparr>pc := pc1\<rparr>)))))
                  else
                    (Continue,
                     emit (Log (''Got message we do not specifically handle, type was: ''
                                @ pixelStreamingMessageType)) w0)))"

text \<open>
  \<^verbatim>\<open>startControlLoop\<close> (lines 175-243) over the results of \<^verbatim>\<open>ReadMessage\<close>, in order:
  \<open>Inl\<close> a read error, \<open>Inr\<close> a message. When the list is used up the loop is blocked in
  the next \<^verbatim>\<open>ReadMessage\<close>: it has not ended.
\<close>

datatype loop_status = AwaitingMessage | LoopExited

fun startControlLoop ::
  "'pc env \<Rightarrow> (string + int \<times> string) list \<Rightarrow> 'pc world \<Rightarrow> loop_status \<times> 'pc world" where
  "startControlLoop E [] w = (AwaitingMessage, w)"
| "startControlLoop E (Inl err # rest) w =
     (LoopExited,
      emit CloseWS
        (emit (Log ''Closing Pion websocket control loop.'')
           (emit (Log (''Websocket read message error: '' @ err)) w)))"
| "startControlLoop E (Inr rd # rest) w =
     (case control_step E rd w of
        (Continue, w') \<Rightarrow> startControlLoop E rest w'
      | (Return, w') \<Rightarrow> (LoopExited, w'))"

text \<open>The calls on the peer connection and the websocket writes, without the log lines.\<close>

fun actions_of :: "event list \<Rightarrow> event list" where
  "actions_of [] = []"
| "actions_of (Send m # es) = Send m # actions_of es"
| "actions_of (Call c # es) = Call c # actions_of es"
| "actions_of (e # es) = actions_of es"

section \<open>Media relay\<close>

subsection \<open>Configuration\<close>

text \<open>
  The flags of lines 24-55. \<^verbatim>\<open>flag.Uint\<close> gives a Go \<^verbatim>\<open>uint\<close> and \<^verbatim>\<open>flag.Uint64\<close> a
  \<^verbatim>\<open>uint64\<close>: 64-bit words on the 64-bit platforms.
\<close>

record config =
  CirrusPort :: int
  CirrusAddress :: string
  ForwardingAddress :: string
  RTPVideoForwardingPort :: int
  RTPAudioForwardingPort :: int
  RTPAudioPayloadType :: "64 word"
  RTPVideoPayloadType :: "64 word"
  RTCPIntervalMs :: int
  RTCPSendPLI :: bool
  RTCPSendREMB :: bool
  REMB :: "64 word"

text \<open>The default values of the flags.\<close>

definition default_config :: config where
  "default_config =
     \<lparr>CirrusPort = 80, CirrusAddress = ''localhost'', ForwardingAddress = ''127.0.0.1'',
      RTPVideoForwardingPort = 4002, RTPAudioForwardingPort = 4000,
      RTPAudioPayloadType = 111, RTPVideoPayloadType = 125,
      RTCPIntervalMs = 2000, RTCPSendPLI = True, RTCPSendREMB = True, REMB = 400000000\<rparr>"

subsection \<open>Destinations\<close>

text \<open>
  \<^verbatim>\<open>type udpConn struct\<close> (lines 57-61). The socket is named by the address it was
  dialled to; what a write on it returns is an input of the relay loop.
\<close>

record udpConn =
  conn :: string
  port :: int
  payloadType :: "8 word"

text \<open>The resolver and the dialler of package \<^verbatim>\<open>net\<close>: parameters.\<close>

record net =
  ResolveUDPAddr :: "string \<Rightarrow> string + string"
  DialUDP :: "string \<Rightarrow> string + string"

text \<open>\<^verbatim>\<open>createUDPConnection\<close> (lines 261-278); \<open>Inl\<close> is the result \<^verbatim>\<open>nil, err\<close>.\<close>

definition createUDPConnection :: "net \<Rightarrow> string \<Rightarrow> int \<Rightarrow> 8 word \<Rightarrow> string + udpConn" where
  "createUDPConnection N address prt pt =
     (case ResolveUDPAddr N (address @ '':'' @ Sprintf_d prt) of
        Inl resolveRemoteErr \<Rightarrow> Inl resolveRemoteErr
      | Inr raddr \<Rightarrow>
          (case DialUDP N raddr of
             Inl udpConnErr \<Rightarrow> Inl udpConnErr
           | Inr c \<Rightarrow> Inr \<lparr>conn = c, port = prt, payloadType = pt\<rparr>))"

text \<open>The conversion \<^verbatim>\<open>uint8(x)\<close> of a \<^verbatim>\<open>uint\<close>: the low eight bits.\<close>

definition uint8 :: "64 word \<Rightarrow> 8 word" where
  "uint8 x = ucast x"

text \<open>
  The first part of \<^verbatim>\<open>setupMediaForwarding\<close> (lines 285-295): the two destinations,
  \<open>None\<close> for a nil pointer, video first, and the lines logged.
\<close>

definition setupMediaForwarding :: "net \<Rightarrow> config \<Rightarrow> (udpConn option \<times> udpConn option) \<times> string list" where
  "setupMediaForwarding N cfg =
     (let v = createUDPConnection N (ForwardingAddress cfg) (RTPVideoForwardingPort cfg)
                (uint8 (RTPVideoPayloadType cfg));
          a = createUDPConnection N (ForwardingAddress cfg) (RTPAudioForwardingPort cfg)
                (uint8 (RTPAudioPayloadType cfg))
      in ((case v of Inl err \<Rightarrow> None | Inr c \<Rightarrow> Some c,
           case a of Inl err \<Rightarrow> None | Inr c \<Rightarrow> Some c),
          (case v of Inl err \<Rightarrow> [''Error creating udp connection for video: '' @ err] | Inr c \<Rightarrow> [])
          @ (case a of Inl err \<Rightarrow> [''Error creating udp connection for audio: '' @ err] | Inr c \<Rightarrow> [])))"

text \<open>The choice of the destination by the kind of the track (lines 302-310).\<close>

definition select_conn :: "string \<Rightarrow> udpConn option \<Rightarrow> udpConn option \<Rightarrow> udpConn option" where
  "select_conn trackType audioUDPConn videoUDPConn =
     (if trackType = ''audio'' then audioUDPConn
      else if trackType = ''video'' then videoUDPConn
      else None)"

subsection \<open>The relay loop\<close>

type_synonym byte = "8 word"

text \<open>
  An error value as line 361 looks at it: a \<^verbatim>\<open>*net.OpError\<close> with the text of its inner
  error, or any other error with its text.
\<close>

datatype go_error = OpError string | OtherError string

text \<open>
  \<^verbatim>\<open>rtp.Packet\<close>: the field the loop assigns, and everything else. Its decoder and
  encoder belong to the RTP library: they are parameters. \<^verbatim>\<open>Unmarshal\<close> is a method of
  the packet the loop reuses, so it takes the old packet; \<^verbatim>\<open>MarshalTo\<close> returns the
  count and the new content of the buffer.
\<close>

record 'h Packet =
  PayloadType :: "8 word"
  rest :: 'h

record 'h codec =
  Unmarshal :: "'h Packet \<Rightarrow> byte list \<Rightarrow> go_error + 'h Packet"
  MarshalTo :: "'h Packet \<Rightarrow> byte list \<Rightarrow> go_error + nat \<times> byte list"

text \<open>
  What one turn of the loop gets from outside: the result of \<^verbatim>\<open>track.Read\<close> (the bytes
  it put at the start of the buffer) and the error the socket returns to the write of
  this turn, if the turn comes to write.
\<close>

record tick =
  readResult :: "go_error + byte list"
  writeResult :: "go_error option"

text \<open>
  The variables of the loop: the buffer \<^verbatim>\<open>b\<close>, the packet, and every call of
  \<^verbatim>\<open>conn.Write\<close> so far with the error it returned.
\<close>

record 'h relay_state =
  b :: "byte list"
  rtpPacket :: "'h Packet"
  writes :: "(byte list \<times> go_error option) list"

datatype panic_value = PanicError go_error | NilDereference | SliceBounds

datatype status = Running | Panicked panic_value

definition connection_refused :: "go_error \<Rightarrow> bool" where
  "connection_refused err =
     (case err of OpError inner \<Rightarrow> inner = ''write: connection refused'' | OtherError t \<Rightarrow> False)"

text \<open>One turn of the loop of lines 335-366.\<close>

definition relay_iteration ::
  "'h codec \<Rightarrow> udpConn option \<Rightarrow> 'h relay_state \<Rightarrow> tick \<Rightarrow> status \<times> 'h relay_state" where
  "relay_iteration C udpConnection st tk =
     (case readResult tk of
        Inl readErr \<Rightarrow> (Panicked (PanicError readErr), st)
      | Inr data \<Rightarrow>
          (let n = length data; b1 = data @ drop n (b st)
           in case Unmarshal C (rtpPacket st) (take n b1) of
                Inl err \<Rightarrow> (Panicked (PanicError err), st\<lparr>b := b1\<rparr>)
              | Inr p1 \<Rightarrow>
                  (case udpConnection of
                     None \<Rightarrow> (Panicked NilDereference, st\<lparr>b := b1, rtpPacket := p1\<rparr>)
                   | Some uc \<Rightarrow>
                       (let p2 = p1\<lparr>PayloadType := payloadType uc\<rparr>
                        in case MarshalTo C p2 b1 of
                             Inl err \<Rightarrow> (Panicked (PanicError err), st\<lparr>b := b1, rtpPacket := p2\<rparr>)
                           | Inr (n2, b2) \<Rightarrow>
                               if length b2 < n2
                               then (Panicked SliceBounds, st\<lparr>b := b2, rtpPacket := p2\<rparr>)
                               else
                                 (let st2 = \<lparr>b = b2, rtpPacket = p2,
                                             writes = writes st @ [(take n2 b2, writeResult tk)]\<rparr>
                                  in case writeResult tk of
                                       None \<Rightarrow> (Running, st2)
                                     | Some err \<Rightarrow>
                                         if connection_refused err then (Running, st2)
                                         else (Panicked (PanicError err), st2))))))"

text \<open>
  The loop over the turns that happen. When the list is used up the loop is blocked in
  \<^verbatim>\<open>track.Read\<close>: it is still running.
\<close>

fun relay_loop ::
  "'h codec \<Rightarrow> udpConn option \<Rightarrow> 'h relay_state \<Rightarrow> tick list \<Rightarrow> status \<times> 'h relay_state" where
  "relay_loop C udpConnection st [] = (Running, st)"
| "relay_loop C udpConnection st (tk # tks) =
     (case relay_iteration C udpConnection st tk of
        (Running, st') \<Rightarrow> relay_loop C udpConnection st' tks
      | (Panicked p, st') \<Rightarrow> (Panicked p, st'))"

text \<open>The state at the start of the callback (lines 333-334); \<open>h0\<close> is the empty packet's rest.\<close>

definition initial_relay_state :: "'h \<Rightarrow> 'h relay_state" where
  "initial_relay_state h0 =
     \<lparr>b = replicate 1500 0, rtpPacket = \<lparr>PayloadType = 0, rest = h0\<rparr>, writes = []\<rparr>"

text \<open>The datagrams the destination got: the writes that returned no error.\<close>

definition forwarded :: "'h relay_state \<Rightarrow> byte list list" where
  "forwarded st = map fst (filter (\<lambda>wr. snd wr = None) (writes st))"

subsection \<open>The two loops in one process\<close>

text \<open>
  The session asks for one audio and one video track (lines 100-111), and the callback of
  each runs the loop in a goroutine of its own. The statement \<^verbatim>\<open>panic(err)\<close> is not
  recovered anywhere in the program, and a panic that no goroutine recovers ends the Go
  program. The process is modelled by the turns of the two loops in the order they
  happen, each with its track: once a turn has panicked the program is gone and no later
  turn of either loop runs. (Both callbacks assign the one variable \<^verbatim>\<open>err\<close> of
  \<^verbatim>\<open>setupMediaForwarding\<close>; here every test of \<^verbatim>\<open>err\<close> sees the value assigned just
  before it.)
\<close>

datatype track = AudioTrack | VideoTrack

text \<open>\<^verbatim>\<open>track.Kind().String()\<close>.\<close>

fun Kind_String :: "track \<Rightarrow> string" where
  "Kind_String AudioTrack = ''audio''"
| "Kind_String VideoTrack = ''video''"

record 'h process =
  audioLoop :: "'h relay_state"
  videoLoop :: "'h relay_state"
  crashed :: "panic_value option"

definition process_turn ::
  "'h codec \<Rightarrow> udpConn option \<Rightarrow> udpConn option \<Rightarrow> 'h process \<Rightarrow> track \<times> tick \<Rightarrow> 'h process" where
  "process_turn C audioUDPConn videoUDPConn P kt =
     (case crashed P of
        Some p \<Rightarrow> P
      | None \<Rightarrow>
          (case fst kt of
             AudioTrack \<Rightarrow>
               (case relay_iteration C (select_conn (Kind_String AudioTrack) audioUDPConn videoUDPConn)
                       (audioLoop P) (snd kt) of
                  (Running, st') \<Rightarrow> P\<lparr>audioLoop := st'\<rparr>
                | (Panicked p, st') \<Rightarrow> P\<lparr>audioLoop := st', crashed := Some p\<rparr>)
           | VideoTrack \<Rightarrow>
               (case relay_iteration C (select_conn (Kind_String VideoTrack) audioUDPConn videoUDPConn)
                       (videoLoop P) (snd kt) of
                  (Running, st') \<Rightarrow> P\<lparr>videoLoop := st'\<rparr>
                | (Panicked p, st') \<Rightarrow> P\<lparr>videoLoop := st', crashed := Some p\<rparr>)))"

fun process_run ::
  "'h codec \<Rightarrow> udpConn option \<Rightarrow> udpConn option \<Rightarrow> 'h process \<Rightarrow> (track \<times> tick) list \<Rightarrow> 'h process" where
  "process_run C audioUDPConn videoUDPConn P [] = P"
| "process_run C audioUDPConn videoUDPConn P (kt # kts) =
     process_run C audioUDPConn videoUDPConn (process_turn C audioUDPConn videoUDPConn P kt) kts"

section \<open>Feedback emitter\<close>

text \<open>
  The goroutine of lines 313-331. \<^verbatim>\<open>float32(x)\<close> is kept as the conversion applied to
  its argument.
\<close>

datatype float32 = float32 "64 word"

datatype rtcp_packet =
    PictureLossIndication "32 word"
  | ReceiverEstimatedMaximumBitrate float32 "32 word list"

text \<open>\<^verbatim>\<open>time.Millisecond\<close>, in nanoseconds, the unit of \<^verbatim>\<open>time.Duration\<close>.\<close>

definition Millisecond :: int where
  "Millisecond = 1000000"

text \<open>The period given to \<^verbatim>\<open>time.NewTicker\<close> (line 314).\<close>

definition ticker_period :: "config \<Rightarrow> int" where
  "ticker_period cfg = Millisecond * 2000"

text \<open>The calls of \<^verbatim>\<open>WriteRTCP\<close> made at one tick, for the track with the given SSRC.\<close>

definition feedback_tick :: "config \<Rightarrow> 32 word \<Rightarrow> rtcp_packet list list" where
  "feedback_tick cfg ssrc =
     (if RTCPSendPLI cfg then [[PictureLossIndication ssrc]] else [])
     @ (if RTCPSendREMB cfg then [[ReceiverEstimatedMaximumBitrate (float32 (REMB cfg)) [ssrc]]] else [])"

section \<open>Concrete collaborators for running the model\<close>

text \<open>
  Four messages as they arrive on the websocket, and a decoder that knows exactly these.
  In the third the member \<^verbatim>\<open>sdp\<close> is a number: the message is a JSON object with the
  type \<^verbatim>\<open>offer\<close>, and decoding it into a session description fails.
\<close>

definition answer_msg :: string where
  \<open>answer_msg = ''{"type":"answer","sdp":"v=0"}''\<close>

definition offer_msg :: string where
  \<open>offer_msg = ''{"type":"offer","sdp":"v=0"}''\<close>

definition bad_offer_msg :: string where
  \<open>bad_offer_msg = ''{"type":"offer","sdp":5}''\<close>

definition count_msg :: string where
  \<open>count_msg = ''{"type":"playerCount","count":3}''\<close>

definition stub_answer :: SessionDescription where
  "stub_answer = \<lparr>sdType = ''answer'', SDP = ''v=0''\<rparr>"

definition stub_offer :: SessionDescription where
  "stub_offer = \<lparr>sdType = ''offer'', SDP = ''v=0''\<rparr>"

text \<open>
  A peer connection that keeps the local and the remote description and accepts every
  call, and a websocket whose writes succeed.
\<close>

type_synonym stub_pc = "SessionDescription option \<times> SessionDescription option"

definition stub_env :: "stub_pc env" where
  \<open>stub_env =
     \<lparr>Unmarshal_objmap = (\<lambda>m.
         if m = answer_msg then Inr (map_of [(''type'', ''"answer"''), (''sdp'', ''"v=0"'')])
         else if m = offer_msg then Inr (map_of [(''type'', ''"offer"''), (''sdp'', ''"v=0"'')])
         else if m = bad_offer_msg then Inr (map_of [(''type'', ''"offer"''), (''sdp'', ''5'')])
         else if m = count_msg then Inr (map_of [(''type'', ''"playerCount"''), (''count'', ''3'')])
         else Inl ''invalid character''),
      Unmarshal_string = (\<lambda>r.
         if r = ''"answer"'' then Inr ''answer''
         else if r = ''"offer"'' then Inr ''offer''
         else if r = ''"playerCount"'' then Inr ''playerCount''
         else Inl ''unexpected end of JSON input''),
      Unmarshal_int = (\<lambda>r. if r = ''3'' then (None, 3) else (Some ''unexpected end of JSON input'', 0)),
      Unmarshal_sdp = (\<lambda>m.
         if m = answer_msg then Inr stub_answer
         else if m = offer_msg then Inr stub_offer
         else Inl ''json: cannot unmarshal number into Go struct field SessionDescription.sdp of type string''),
      Unmarshal_candidate = (\<lambda>r. Inr r),
      Marshal_sdp = (\<lambda>d. Inr (''{"type":"'' @ sdType d @ ''","sdp":"'' @ SDP d @ ''"}'')),
      Marshal_resp = (\<lambda>r. Inr (''{"type":"'' @ respType r @ ''","candidate":'' @ Candidate r @ ''}'')),
      ToJSON = (\<lambda>c. ''{"candidate":"'' @ c @ ''"}''),
      SetLocalDescription = (\<lambda>p d. (None, (Some d, snd p))),
      SetRemoteDescription = (\<lambda>p d. (None, (fst p, Some d))),
      RemoteDescription = snd,
      AddICECandidate = (\<lambda>p i. (None, p)),
      CreateAnswer = (\<lambda>p. (Inr stub_answer, p)),
      WriteMessage = (\<lambda>es m. None)\<rparr>\<close>

text \<open>The same, but the peer connection refuses every local description.\<close>

definition failing_local_env :: "stub_pc env" where
  "failing_local_env = stub_env\<lparr>SetLocalDescription := (\<lambda>p d. (Some ''InvalidStateError'', p))\<rparr>"

definition stub_world :: "stub_pc world" where
  "stub_world = \<lparr>pc = (None, None), pendingCandidates = [], events = []\<rparr>"

definition two_candidates_world :: "stub_pc world" where
  "two_candidates_world = \<lparr>pc = (None, None), pendingCandidates = [''c1'', ''c2''], events = []\<rparr>"

definition one_candidate_world :: "stub_pc world" where
  "one_candidate_world = OnICECandidate stub_env (Some ''c1'') stub_world"

definition negotiated_world :: "stub_pc world" where
  "negotiated_world = \<lparr>pc = (None, Some stub_offer), pendingCandidates = [], events = []\<rparr>"

text \<open>
  A codec with a header of one byte, the payload type, to run the relay loop on. It
  stands for the interface of the RTP library, not for the RTP format.
\<close>

definition toy_codec :: "byte list codec" where
  "toy_codec =
     \<lparr>Unmarshal = (\<lambda>p bs. case bs of [] \<Rightarrow> Inl (OtherError ''short packet'')
                                   | x # xs \<Rightarrow> Inr \<lparr>PayloadType = x, rest = xs\<rparr>),
      MarshalTo = (\<lambda>p buf. if length buf < Suc (length (rest p)) then Inl (OtherError ''short buffer'')
                            else Inr (Suc (length (rest p)),
                                      (PayloadType p # rest p) @ drop (Suc (length (rest p))) buf))\<rparr>"

definition stub_net :: net where
  "stub_net = \<lparr>ResolveUDPAddr = Inr, DialUDP = Inr\<rparr>"

definition audio_conn :: udpConn where
  "audio_conn = \<lparr>conn = ''127.0.0.1:4000'', port = 4000, payloadType = 111\<rparr>"

definition video_conn :: udpConn where
  "video_conn = \<lparr>conn = ''127.0.0.1:4002'', port = 4002, payloadType = 125\<rparr>"

definition good_tick :: tick where
  "good_tick = \<lparr>readResult = Inr [96, 1, 2], writeResult = None\<rparr>"

definition refused_tick :: tick where
  "refused_tick =
     \<lparr>readResult = Inr [96, 1, 2], writeResult = Some (OpError ''write: connection refused'')\<rparr>"

definition read_error_tick :: tick where
  "read_error_tick = \<lparr>readResult = Inl (OtherError ''EOF''), writeResult = None\<rparr>"

definition process0 :: "byte list process" where
  "process0 = \<lparr>audioLoop = initial_relay_state [], videoLoop = initial_relay_state [], crashed = None\<rparr>"

text \<open>Two command lines: a video payload type above 255, and a feedback interval of 500 ms.\<close>

definition cfg381 :: config where
  "cfg381 = default_config\<lparr>RTPVideoPayloadType := 381\<rparr>"

definition cfg500 :: config where
  "cfg500 = default_config\<lparr>RTCPIntervalMs := 500\<rparr>"

definition video381 :: udpConn where
  "video381 = \<lparr>conn = ForwardingAddress cfg381 @ '':'' @ Sprintf_d (RTPVideoForwardingPort cfg381),
                port = RTPVideoForwardingPort cfg381, payloadType = uint8 (RTPVideoPayloadType cfg381)\<rparr>"

definition audio381 :: udpConn where
  "audio381 = \<lparr>conn = ForwardingAddress cfg381 @ '':'' @ Sprintf_d (RTPAudioForwardingPort cfg381),
                port = RTPAudioForwardingPort cfg381, payloadType = uint8 (RTPAudioPayloadType cfg381)\<rparr>"

section \<open>Properties of the signaling coordinator\<close>

subsection \<open>Effects of the helpers\<close>

lemma events_emit: "events (emit e w) = events w @ [e]"
  by (simp add: emit_def)

lemma pending_emit: "pendingCandidates (emit e w) = pendingCandidates w"
  by (simp add: emit_def)

lemma pc_emit: "pc (emit e w) = pc w"
  by (simp add: emit_def)

lemma sent_of_append: "sent_of (xs @ ys) = sent_of xs @ sent_of ys"
  by (induction xs rule: sent_of.induct) simp_all

lemma actions_of_append: "actions_of (xs @ ys) = actions_of xs @ actions_of ys"
  by (induction xs rule: actions_of.induct) simp_all

lemma sent_of_actions: "sent_of (actions_of es) = sent_of es"
  by (induction es rule: actions_of.induct) simp_all

lemma sent_of_map_Send: "sent_of (map (\<lambda>c. Send (f c)) cs) = map f cs"
  by (induction cs) simp_all

lemma pending_writeWSMessage: "pendingCandidates (writeWSMessage E m w) = pendingCandidates w"
  by (simp add: writeWSMessage_def pending_emit split: option.splits)

lemma pc_writeWSMessage: "pc (writeWSMessage E m w) = pc w"
  by (simp add: writeWSMessage_def pc_emit split: option.splits)

lemma actions_writeWSMessage:
  "actions_of (events (writeWSMessage E m w)) = actions_of (events w) @ [Send m]"
  by (simp add: writeWSMessage_def events_emit actions_of_append split: option.splits)

lemma pending_sendLocalIceCandidate:
  "pendingCandidates (sendLocalIceCandidate E c w) = pendingCandidates w"
  by (simp add: sendLocalIceCandidate_def Let_def pending_emit pending_writeWSMessage
      split: sum.splits)

lemma pc_sendLocalIceCandidate: "pc (sendLocalIceCandidate E c w) = pc w"
  by (simp add: sendLocalIceCandidate_def Let_def pc_emit pc_writeWSMessage split: sum.splits)

lemma actions_sendLocalIceCandidate:
  "actions_of (events (sendLocalIceCandidate E c w)) =
     actions_of (events w) @ [Send (ice_payload E c)]"
  by (simp add: sendLocalIceCandidate_def Let_def events_emit actions_of_append
      actions_writeWSMessage split: sum.splits)

lemma sent_sendLocalIceCandidate:
  "sent (sendLocalIceCandidate E c w) = sent w @ [ice_payload E c]"
proof -
  have "sent_of (actions_of (events (sendLocalIceCandidate E c w))) =
        sent_of (actions_of (events w) @ [Send (ice_payload E c)])"
    by (simp only: actions_sendLocalIceCandidate)
  then show ?thesis
    by (simp add: sent_def sent_of_actions sent_of_append)
qed

lemma pending_send_each: "pendingCandidates (send_each E cs w) = pendingCandidates w"
  by (induction cs arbitrary: w) (simp_all add: pending_sendLocalIceCandidate)

lemma pc_send_each: "pc (send_each E cs w) = pc w"
  by (induction cs arbitrary: w) (simp_all add: pc_sendLocalIceCandidate)

lemma actions_send_each:
  "actions_of (events (send_each E cs w)) =
     actions_of (events w) @ map (\<lambda>c. Send (ice_payload E c)) cs"
  by (induction cs arbitrary: w) (simp_all add: actions_sendLocalIceCandidate)

subsection \<open>Only the candidate callback changes the buffer\<close>

lemma pending_handleRemoteAnswer:
  "pendingCandidates (handleRemoteAnswer E m w) = pendingCandidates w"
  by (simp add: handleRemoteAnswer_def Let_def pending_emit pending_send_each
      split: sum.splits prod.splits option.splits)

lemma pending_handleRemoteIceCandidate:
  "pendingCandidates (handleRemoteIceCandidate E m w) = pendingCandidates w"
  by (simp add: handleRemoteIceCandidate_def pending_emit
      split: sum.splits prod.splits option.splits)

lemma pending_createAnswer: "pendingCandidates (snd (createAnswer E w)) = pendingCandidates w"
  by (simp add: createAnswer_def Let_def pending_emit split: sum.splits prod.splits option.splits)

lemma pending_sendAnswer: "pendingCandidates (sendAnswer E w) = pendingCandidates w"
proof -
  obtain s e w1 where c: "createAnswer E w = ((s, e), w1)"
    by (metis surj_pair)
  have "pendingCandidates w1 = pendingCandidates w"
    using pending_createAnswer [of E w] c by simp
  then show ?thesis
    by (simp add: sendAnswer_def c pending_emit pending_writeWSMessage split: option.splits)
qed

lemma pending_control_step:
  "pendingCandidates (snd (control_step E rd w)) = pendingCandidates w"
  by (simp add: control_step_def Let_def pending_emit pending_handleRemoteAnswer
      pending_handleRemoteIceCandidate pending_sendAnswer
      split: sum.splits prod.splits option.splits)

subsection \<open>An accepted answer\<close>

lemma handleRemoteAnswer_accepted:
  assumes "Unmarshal_sdp E message = Inr sdp"
    and "SetLocalDescription E (pc w) sdp = (None, pc1)"
    and "SetRemoteDescription E pc1 sdp = (None, pc2)"
  shows "actions_of (events (handleRemoteAnswer E message w)) =
           actions_of (events w)
           @ [Call (CallSetLocalDescription sdp), Call (CallSetRemoteDescription sdp)]
           @ map (\<lambda>c. Send (ice_payload E c)) (pendingCandidates w)"
    and "pc (handleRemoteAnswer E message w) = pc2"
  using assms
  by (simp_all add: handleRemoteAnswer_def Let_def events_emit pc_emit pending_emit
      actions_of_append actions_send_each pc_send_each)

lemma sent_handleRemoteAnswer_accepted:
  assumes "Unmarshal_sdp E message = Inr sdp"
    and "SetLocalDescription E (pc w) sdp = (None, pc1)"
    and "SetRemoteDescription E pc1 sdp = (None, pc2)"
  shows "sent (handleRemoteAnswer E message w) = sent w @ map (ice_payload E) (pendingCandidates w)"
proof -
  have "sent_of (actions_of (events (handleRemoteAnswer E message w))) =
        sent_of (actions_of (events w)
           @ [Call (CallSetLocalDescription sdp), Call (CallSetRemoteDescription sdp)]
           @ map (\<lambda>c. Send (ice_payload E c)) (pendingCandidates w))"
    using handleRemoteAnswer_accepted(1) [OF assms] by simp
  then show ?thesis
    by (simp add: sent_def sent_of_actions sent_of_append sent_of_map_Send)
qed

subsection \<open>The concrete collaborators\<close>

lemma stub_fields:
  "Unmarshal_sdp stub_env answer_msg = Inr stub_answer"
  "Unmarshal_sdp stub_env offer_msg = Inr stub_offer"
  "SetLocalDescription stub_env p d = (None, (Some d, snd p))"
  "SetRemoteDescription stub_env p d = (None, (fst p, Some d))"
  "RemoteDescription stub_env p = snd p"
  "WriteMessage stub_env es m = None"
  "CreateAnswer stub_env p = (Inr stub_answer, p)"
  by (simp_all add: stub_env_def answer_msg_def offer_msg_def)

lemma stub_messages:
  \<open>Unmarshal_objmap stub_env answer_msg = Inr (map_of [(''type'', ''"answer"''), (''sdp'', ''"v=0"'')])\<close>
  \<open>Unmarshal_objmap stub_env offer_msg = Inr (map_of [(''type'', ''"offer"''), (''sdp'', ''"v=0"'')])\<close>
  \<open>Unmarshal_objmap stub_env bad_offer_msg = Inr (map_of [(''type'', ''"offer"''), (''sdp'', ''5'')])\<close>
  \<open>Unmarshal_string stub_env ''"answer"'' = Inr ''answer''\<close>
  \<open>Unmarshal_string stub_env ''"offer"'' = Inr ''offer''\<close>
  \<open>Unmarshal_sdp stub_env bad_offer_msg =
     Inl ''json: cannot unmarshal number into Go struct field SessionDescription.sdp of type string''\<close>
  \<open>Marshal_sdp stub_env stub_answer = Inr ''{"type":"answer","sdp":"v=0"}''\<close>
  by (simp_all add: stub_env_def stub_answer_def answer_msg_def offer_msg_def bad_offer_msg_def)

lemma one_candidate_world_fields:
  "pendingCandidates one_candidate_world = [''c1'']" "sent one_candidate_world = []"
  by (simp_all add: one_candidate_world_def OnICECandidate_def stub_world_def Let_def emit_def
      stub_fields sent_def)

lemma stub_handleRemoteAnswer:
  "sent (handleRemoteAnswer stub_env answer_msg w) =
     sent w @ map (ice_payload stub_env) (pendingCandidates w)"
  "pendingCandidates (handleRemoteAnswer stub_env answer_msg w) = pendingCandidates w"
proof -
  have h3: "Unmarshal_sdp stub_env answer_msg = Inr stub_answer"
    by (rule stub_fields)
  have h4: "SetLocalDescription stub_env (pc w) stub_answer = (None, (Some stub_answer, snd (pc w)))"
    by (simp add: stub_fields)
  have h5: "SetRemoteDescription stub_env (Some stub_answer, snd (pc w)) stub_answer =
              (None, (Some stub_answer, Some stub_answer))"
    by (simp add: stub_fields)
  show "sent (handleRemoteAnswer stub_env answer_msg w) =
          sent w @ map (ice_payload stub_env) (pendingCandidates w)"
    by (rule sent_handleRemoteAnswer_accepted [OF h3 h4 h5])
  show "pendingCandidates (handleRemoteAnswer stub_env answer_msg w) = pendingCandidates w"
    by (rule pending_handleRemoteAnswer)
qed

lemma Sprintf_d_1: "Sprintf_d 1 = ''1''"
  by code_simp

subsection \<open>The claims\<close>

text \<open>
  C1. A message whose type decodes to \<^verbatim>\<open>answer\<close>, whose payload decodes to a session
  description and which the peer connection accepts twice: the coordinator calls
  \<^verbatim>\<open>SetLocalDescription\<close> with that description, then \<^verbatim>\<open>SetRemoteDescription\<close> with
  the same description, and after that writes one message for every buffered candidate,
  in the order of the buffer. Nothing else is called or written, and the loop goes on.
\<close>

theorem answer_applied_local_then_remote_then_candidates:
  assumes "Unmarshal_objmap E message = Inr objmap"
    and "Unmarshal_string E (lookup objmap ''type'') = Inr ''answer''"
    and "Unmarshal_sdp E message = Inr sdp"
    and "SetLocalDescription E (pc w) sdp = (None, pc1)"
    and "SetRemoteDescription E pc1 sdp = (None, pc2)"
  shows "fst (control_step E (messageType, message) w) = Continue
       \<and> actions_of (events (snd (control_step E (messageType, message) w))) =
           actions_of (events w)
           @ [Call (CallSetLocalDescription sdp), Call (CallSetRemoteDescription sdp)]
           @ map (\<lambda>c. Send (ice_payload E c)) (pendingCandidates w)"
proof -
  let ?w0 = "emit (Print (colorGreen @ '' '' @ ''Received message, (type='' @ Sprintf_d messageType
                              @ ''): '' @ message @ '' '' @ colorReset)) w"
  have step: "control_step E (messageType, message) w = (Continue, handleRemoteAnswer E message ?w0)"
    using assms(1,2) by (simp add: control_step_def Let_def)
  have "SetLocalDescription E (pc ?w0) sdp = (None, pc1)"
    using assms(4) by (simp add: pc_emit)
  from handleRemoteAnswer_accepted(1) [OF assms(3) this assms(5)]
  show ?thesis
    by (simp add: step events_emit pending_emit actions_of_append)
qed

theorem answer_applied_local_then_remote_then_candidates_witness:
  \<open>Unmarshal_objmap stub_env answer_msg = Inr (map_of [(''type'', ''"answer"''), (''sdp'', ''"v=0"'')])
 \<and> Unmarshal_string stub_env (lookup (map_of [(''type'', ''"answer"''), (''sdp'', ''"v=0"'')]) ''type'')
     = Inr ''answer''
 \<and> Unmarshal_sdp stub_env answer_msg = Inr stub_answer
 \<and> SetLocalDescription stub_env (pc two_candidates_world) stub_answer = (None, (Some stub_answer, None))
 \<and> SetRemoteDescription stub_env (Some stub_answer, None) stub_answer
     = (None, (Some stub_answer, Some stub_answer))
 \<and> fst (control_step stub_env (1, answer_msg) two_candidates_world) = Continue
 \<and> actions_of (events (snd (control_step stub_env (1, answer_msg) two_candidates_world))) =
     [Call (CallSetLocalDescription stub_answer), Call (CallSetRemoteDescription stub_answer),
      Send (ice_payload stub_env ''c1''), Send (ice_payload stub_env ''c2'')]\<close>
proof -
  have h1: \<open>Unmarshal_objmap stub_env answer_msg
              = Inr (map_of [(''type'', ''"answer"''), (''sdp'', ''"v=0"'')])\<close>
    by (rule stub_messages)
  have h2: \<open>Unmarshal_string stub_env (lookup (map_of [(''type'', ''"answer"''), (''sdp'', ''"v=0"'')]) ''type'')
              = Inr ''answer''\<close>
    by (simp add: stub_messages lookup_def)
  have h3: "Unmarshal_sdp stub_env answer_msg = Inr stub_answer"
    by (rule stub_fields)
  have h4: "SetLocalDescription stub_env (pc two_candidates_world) stub_answer
              = (None, (Some stub_answer, None))"
    by (simp add: stub_fields two_candidates_world_def)
  have h5: "SetRemoteDescription stub_env (Some stub_answer, None) stub_answer
              = (None, (Some stub_answer, Some stub_answer))"
    by (simp add: stub_fields)
  have w: "actions_of (events two_candidates_world) = []"
    "pendingCandidates two_candidates_world = [''c1'', ''c2'']"
    by (simp_all add: two_candidates_world_def)
  have c: "fst (control_step stub_env (1, answer_msg) two_candidates_world) = Continue
       \<and> actions_of (events (snd (control_step stub_env (1, answer_msg) two_candidates_world))) =
     [Call (CallSetLocalDescription stub_answer), Call (CallSetRemoteDescription stub_answer),
      Send (ice_payload stub_env ''c1''), Send (ice_payload stub_env ''c2'')]"
    using answer_applied_local_then_remote_then_candidates [OF h1 h2 h3 h4 h5, of 1]
    by (simp add: w)
  show ?thesis
    by (intro conjI h1 h2 h3 h4 h5 conjunct1 [OF c] conjunct2 [OF c])
qed

text \<open>
  C3, as the code has it. When an answer is accepted the handler writes one message for
  every buffered candidate, in the order of the buffer, once each, and leaves the buffer
  as it was: it removes nothing. A candidate in the buffer is therefore written once for
  every accepted answer.
\<close>

theorem drain_sends_each_once_and_keeps_buffer:
  assumes "Unmarshal_sdp E message = Inr sdp"
    and "SetLocalDescription E (pc w) sdp = (None, pc1)"
    and "SetRemoteDescription E pc1 sdp = (None, pc2)"
  shows "sent (handleRemoteAnswer E message w) = sent w @ map (ice_payload E) (pendingCandidates w)
       \<and> pendingCandidates (handleRemoteAnswer E message w) = pendingCandidates w"
  using sent_handleRemoteAnswer_accepted [OF assms] pending_handleRemoteAnswer [of E message w]
  by simp

theorem drain_sends_each_once_and_keeps_buffer_witness:
  "Unmarshal_sdp stub_env answer_msg = Inr stub_answer
 \<and> SetLocalDescription stub_env (pc two_candidates_world) stub_answer = (None, (Some stub_answer, None))
 \<and> SetRemoteDescription stub_env (Some stub_answer, None) stub_answer
     = (None, (Some stub_answer, Some stub_answer))
 \<and> sent (handleRemoteAnswer stub_env answer_msg two_candidates_world) =
     [ice_payload stub_env ''c1'', ice_payload stub_env ''c2'']
 \<and> pendingCandidates (handleRemoteAnswer stub_env answer_msg two_candidates_world) = [''c1'', ''c2'']"
proof -
  have h3: "Unmarshal_sdp stub_env answer_msg = Inr stub_answer"
    by (rule stub_fields)
  have h4: "SetLocalDescription stub_env (pc two_candidates_world) stub_answer
              = (None, (Some stub_answer, None))"
    by (simp add: stub_fields two_candidates_world_def)
  have h5: "SetRemoteDescription stub_env (Some stub_answer, None) stub_answer
              = (None, (Some stub_answer, Some stub_answer))"
    by (simp add: stub_fields)
  have w: "sent two_candidates_world = []" "pendingCandidates two_candidates_world = [''c1'', ''c2'']"
    by (simp_all add: two_candidates_world_def sent_def)
  have c: "sent (handleRemoteAnswer stub_env answer_msg two_candidates_world) =
     [ice_payload stub_env ''c1'', ice_payload stub_env ''c2'']
 \<and> pendingCandidates (handleRemoteAnswer stub_env answer_msg two_candidates_world) = [''c1'', ''c2'']"
    using drain_sends_each_once_and_keeps_buffer [OF h3 h4 h5] by (simp add: w)
  show ?thesis
    by (intro conjI h3 h4 h5 conjunct1 [OF c] conjunct2 [OF c])
qed

text \<open>
  C3, as the claim states it, fails. One candidate is found before any remote
  description exists, then two answers are accepted: after the first answer the buffer
  still holds the candidate, and after the second the candidate has been written twice.
\<close>

theorem drain_clears_and_sends_once_counterexample:
  "pendingCandidates (handleRemoteAnswer stub_env answer_msg one_candidate_world) = [''c1'']
 \<and> sent (handleRemoteAnswer stub_env answer_msg
           (handleRemoteAnswer stub_env answer_msg one_candidate_world))
     = [ice_payload stub_env ''c1'', ice_payload stub_env ''c1'']"
  by (simp add: stub_handleRemoteAnswer one_candidate_world_fields)

text \<open>
  C4 at a failing input. The offer whose \<^verbatim>\<open>sdp\<close> is a number is followed by a player
  count. The loop logs the decoding error and ends: the second message is never read,
  and the state is the one left by the first.
\<close>

theorem malformed_offer_ends_receive_loop:
  "startControlLoop stub_env [Inr (1, bad_offer_msg), Inr (1, count_msg)] stub_world =
     (LoopExited,
      \<lparr>pc = (None, None), pendingCandidates = [],
       events = [Print (colorGreen @ '' Received message, (type=1): '' @ bad_offer_msg @ '' ''
                        @ colorReset),
                 Log ''Error occured during unmarshaling sdp. Error: json: cannot unmarshal number into Go struct field SessionDescription.sdp of type string'']\<rparr>)"
  by (simp add: control_step_def Let_def stub_messages lookup_def emit_def stub_world_def
      Sprintf_d_1)

text \<open>
  C6. A candidate that is not nil: when the peer connection has no remote description
  the callback appends it to the buffer and writes nothing; when it has one the callback
  writes the candidate's message and leaves the buffer alone. A nil candidate and every
  turn of the receive loop leave the buffer alone too, so an entry is appended only while
  the remote description is absent.
\<close>

theorem local_candidate_buffered_or_sent:
  "(RemoteDescription E (pc w) = None \<longrightarrow>
      pendingCandidates (OnICECandidate E (Some c) w) = pendingCandidates w @ [c]
      \<and> sent (OnICECandidate E (Some c) w) = sent w)
 \<and> (RemoteDescription E (pc w) \<noteq> None \<longrightarrow>
      pendingCandidates (OnICECandidate E (Some c) w) = pendingCandidates w
      \<and> sent (OnICECandidate E (Some c) w) = sent w @ [ice_payload E c])
 \<and> pendingCandidates (OnICECandidate E None w) = pendingCandidates w
 \<and> pendingCandidates (snd (control_step E rd w)) = pendingCandidates w"
  by (auto simp add: OnICECandidate_def Let_def pc_emit pending_emit events_emit sent_def
      sent_of_append pending_sendLocalIceCandidate pending_control_step
      sent_sendLocalIceCandidate [unfolded sent_def])

theorem local_candidate_buffered_or_sent_witness:
  "RemoteDescription stub_env (pc stub_world) = None
 \<and> pendingCandidates (OnICECandidate stub_env (Some ''c1'') stub_world) = [''c1'']
 \<and> sent (OnICECandidate stub_env (Some ''c1'') stub_world) = []
 \<and> RemoteDescription stub_env (pc negotiated_world) \<noteq> None
 \<and> pendingCandidates (OnICECandidate stub_env (Some ''c1'') negotiated_world) = []
 \<and> sent (OnICECandidate stub_env (Some ''c1'') negotiated_world) = [ice_payload stub_env ''c1'']"
proof -
  have a: "RemoteDescription stub_env (pc stub_world) = None"
    by (simp add: stub_fields stub_world_def)
  have b: "RemoteDescription stub_env (pc negotiated_world) \<noteq> None"
    by (simp add: stub_fields negotiated_world_def)
  have w: "pendingCandidates stub_world = []" "sent stub_world = []"
    "pendingCandidates negotiated_world = []" "sent negotiated_world = []"
    by (simp_all add: stub_world_def negotiated_world_def sent_def)
  from local_candidate_buffered_or_sent [of stub_env stub_world "''c1''"] a
  have 1: "pendingCandidates (OnICECandidate stub_env (Some ''c1'') stub_world) = [''c1'']
         \<and> sent (OnICECandidate stub_env (Some ''c1'') stub_world) = []"
    by (simp add: w)
  from local_candidate_buffered_or_sent [of stub_env negotiated_world "''c1''"] b
  have 2: "pendingCandidates (OnICECandidate stub_env (Some ''c1'') negotiated_world) = []
         \<and> sent (OnICECandidate stub_env (Some ''c1'') negotiated_world) = [ice_payload stub_env ''c1'']"
    by (simp add: w)
  show ?thesis
    using a b 1 2 by blast
qed

subsection \<open>An offer while the local description is refused\<close>

lemma failing_local_fields:
  \<open>Unmarshal_objmap failing_local_env offer_msg
     = Inr (map_of [(''type'', ''"offer"''), (''sdp'', ''"v=0"'')])\<close>
  \<open>Unmarshal_string failing_local_env ''"offer"'' = Inr ''offer''\<close>
  "Unmarshal_sdp failing_local_env offer_msg = Inr stub_offer"
  "SetLocalDescription failing_local_env p d = (Some ''InvalidStateError'', p)"
  "SetRemoteDescription failing_local_env p d = (None, (fst p, Some d))"
  "CreateAnswer failing_local_env p = (Inr stub_answer, p)"
  \<open>Marshal_sdp failing_local_env stub_answer = Inr ''{"type":"answer","sdp":"v=0"}''\<close>
  "WriteMessage failing_local_env es m = None"
  by (simp_all add: failing_local_env_def stub_fields stub_messages)

text \<open>
  C5 at a failing input. The peer connection accepts the offer and creates an answer,
  and then refuses that answer as the local description. The calls and writes of that
  turn are: the offer applied as remote description, the answer created, the answer
  refused as local description, and the answer written to the websocket all the same.
\<close>

theorem answer_sent_although_local_description_failed:
  \<open>SetLocalDescription failing_local_env (None, Some stub_offer) stub_answer
     = (Some ''InvalidStateError'', (None, Some stub_offer))
 \<and> actions_of (events (snd (control_step failing_local_env (1, offer_msg) stub_world))) =
     [Call (CallSetRemoteDescription stub_offer), Call CallCreateAnswer,
      Call (CallSetLocalDescription stub_answer), Send ''{"type":"answer","sdp":"v=0"}'']\<close>
  by (simp add: control_step_def sendAnswer_def createAnswer_def writeWSMessage_def Let_def
      failing_local_fields lookup_def emit_def stub_world_def)

section \<open>Properties of the media relay\<close>

subsection \<open>One turn, the loop, the process\<close>

lemma relay_iteration_Running_iff:
  "(fst (relay_iteration C (Some uc) st tk) = Running) =
     (\<exists>data p1 n2 b2. readResult tk = Inr data
        \<and> Unmarshal C (rtpPacket st) data = Inr p1
        \<and> MarshalTo C (p1\<lparr>PayloadType := payloadType uc\<rparr>) (data @ drop (length data) (b st))
            = Inr (n2, b2)
        \<and> n2 \<le> length b2
        \<and> (writeResult tk = None \<or> (\<exists>err. writeResult tk = Some err \<and> connection_refused err)))"
  by (auto simp add: relay_iteration_def Let_def
      split: sum.splits option.splits prod.splits if_splits)

lemma relay_iteration_nil: "fst (relay_iteration C None st tk) \<noteq> Running"
  by (auto simp add: relay_iteration_def Let_def
      split: sum.splits option.splits prod.splits if_splits)

lemma relay_iteration_packet:
  assumes "fst (relay_iteration C (Some uc) st tk) = Running"
  shows "PayloadType (rtpPacket (snd (relay_iteration C (Some uc) st tk))) = payloadType uc"
    and "\<exists>data n2 b2. readResult tk = Inr data
           \<and> MarshalTo C (rtpPacket (snd (relay_iteration C (Some uc) st tk)))
                 (data @ drop (length data) (b st)) = Inr (n2, b2)
           \<and> writes (snd (relay_iteration C (Some uc) st tk))
               = writes st @ [(take n2 b2, writeResult tk)]"
  using assms
  by (auto simp add: relay_iteration_def Let_def
      split: sum.splits option.splits prod.splits if_splits)

lemma relay_loop_Cons:
  "relay_loop C ucO st (tk # tks) =
     (if fst (relay_iteration C ucO st tk) = Running
      then relay_loop C ucO (snd (relay_iteration C ucO st tk)) tks
      else relay_iteration C ucO st tk)"
  by (cases "relay_iteration C ucO st tk") (auto split: status.splits)

lemma process_run_crashed: "crashed P = Some p \<Longrightarrow> process_run C a v P kts = P"
  by (induction kts arbitrary: P) (simp_all add: process_turn_def)

lemma process_turn_panics:
  "crashed P = None \<Longrightarrow> fst (relay_iteration C v (videoLoop P) tk) = Panicked p \<Longrightarrow>
     crashed (process_turn C a v P (VideoTrack, tk)) = Some p"
  "crashed P = None \<Longrightarrow> fst (relay_iteration C a (audioLoop P) tk) = Panicked p \<Longrightarrow>
     crashed (process_turn C a v P (AudioTrack, tk)) = Some p"
  by (cases "relay_iteration C v (videoLoop P) tk"; cases "relay_iteration C a (audioLoop P) tk";
      simp add: process_turn_def select_conn_def)+

subsection \<open>The concrete codec\<close>

lemma toy_read_error:
  "relay_iteration toy_codec ucO st read_error_tick = (Panicked (PanicError (OtherError ''EOF'')), st)"
  by (simp add: relay_iteration_def read_error_tick_def)

lemma toy_iteration:
  assumes "readResult tk = Inr [96, 1, 2]" and "3 \<le> length (b st)"
  shows "relay_iteration toy_codec (Some uc) st tk =
     (if (case writeResult tk of None \<Rightarrow> True | Some err \<Rightarrow> connection_refused err) then Running
      else Panicked (PanicError (the (writeResult tk))),
      \<lparr>b = [payloadType uc, 1, 2] @ drop 3 (b st),
       rtpPacket = \<lparr>PayloadType = payloadType uc, rest = [1, 2]\<rparr>,
       writes = writes st @ [([payloadType uc, 1, 2], writeResult tk)]\<rparr>)"
  using assms
  by (auto simp add: relay_iteration_def toy_codec_def Let_def numeral_3_eq_3 split: option.splits)

lemma initial_fields:
  "length (b (initial_relay_state h)) = 1500" "writes (initial_relay_state h) = []"
  by (simp_all add: initial_relay_state_def)

lemma process0_fields:
  "crashed process0 = None"
  "length (b (audioLoop process0)) = 1500" "writes (audioLoop process0) = []"
  "length (b (videoLoop process0)) = 1500" "writes (videoLoop process0) = []"
  by (simp_all add: process0_def initial_fields)

lemma audio_turn_good:
  "forwarded (audioLoop (process_turn toy_codec (Some audio_conn) (Some video_conn) process0
                           (AudioTrack, good_tick))) = [[111, 1, 2]]"
proof -
  have "relay_iteration toy_codec (Some audio_conn) (audioLoop process0) good_tick =
     (Running, \<lparr>b = [payloadType audio_conn, 1, 2] @ drop 3 (b (audioLoop process0)),
       rtpPacket = \<lparr>PayloadType = payloadType audio_conn, rest = [1, 2]\<rparr>,
       writes = writes (audioLoop process0) @ [([payloadType audio_conn, 1, 2], None)]\<rparr>)"
    using toy_iteration [of good_tick "audioLoop process0" audio_conn]
    by (simp add: good_tick_def process0_fields)
  then show ?thesis
    by (simp add: process_turn_def select_conn_def process0_fields forwarded_def audio_conn_def)
qed

lemma video_turn_read_error:
  "crashed (process_turn toy_codec (Some audio_conn) (Some video_conn) process0
              (VideoTrack, read_error_tick)) = Some (PanicError (OtherError ''EOF''))"
  "audioLoop (process_turn toy_codec (Some audio_conn) (Some video_conn) process0
                (VideoTrack, read_error_tick)) = audioLoop process0"
  by (simp_all add: process_turn_def select_conn_def process0_fields toy_read_error)

subsection \<open>Destinations\<close>

lemma unat_uint8: "unat (uint8 w) = unat w mod 256"
  unfolding uint8_def
  by (simp add: unsigned_ucast_eq unsigned_take_bit_eq take_bit_eq_mod)

lemma setup_payloadType:
  assumes "fst (setupMediaForwarding N cfg) = (videoUDPConn, audioUDPConn)"
  shows "videoUDPConn = Some uc \<Longrightarrow> payloadType uc = uint8 (RTPVideoPayloadType cfg)"
    and "audioUDPConn = Some uc \<Longrightarrow> payloadType uc = uint8 (RTPAudioPayloadType cfg)"
  using assms
  by (auto simp add: setupMediaForwarding_def createUDPConnection_def Let_def split: sum.splits)

lemma setup_stub_net:
  "fst (setupMediaForwarding stub_net cfg) =
     (Some \<lparr>conn = ForwardingAddress cfg @ '':'' @ Sprintf_d (RTPVideoForwardingPort cfg),
            port = RTPVideoForwardingPort cfg, payloadType = uint8 (RTPVideoPayloadType cfg)\<rparr>,
      Some \<lparr>conn = ForwardingAddress cfg @ '':'' @ Sprintf_d (RTPAudioForwardingPort cfg),
            port = RTPAudioForwardingPort cfg, payloadType = uint8 (RTPAudioPayloadType cfg)\<rparr>)"
  by (simp add: setupMediaForwarding_def createUDPConnection_def stub_net_def Let_def)

subsection \<open>The claims\<close>

text \<open>
  C7, as the code has it. A turn of the relay loop goes on to the next turn exactly when
  the read, the decoding and the encoding succeed and the write either succeeds or fails
  with a \<^verbatim>\<open>*net.OpError\<close> whose inner error reads \<^verbatim>\<open>write: connection refused\<close>; then
  the loop reads and handles the next frame. In every other case (a read failure, a
  decoding or encoding failure, any other write failure) the turn panics and the loop
  handles no further frame. The panic is not confined to the loop of that kind: it ends
  the process, and after it no turn of the audio or of the video loop runs.
\<close>

theorem relay_failure_policy:
  "((fst (relay_iteration C (Some uc) st tk) = Running) =
     (\<exists>data p1 n2 b2. readResult tk = Inr data
        \<and> Unmarshal C (rtpPacket st) data = Inr p1
        \<and> MarshalTo C (p1\<lparr>PayloadType := payloadType uc\<rparr>) (data @ drop (length data) (b st))
            = Inr (n2, b2)
        \<and> n2 \<le> length b2
        \<and> (writeResult tk = None \<or> (\<exists>err. writeResult tk = Some err \<and> connection_refused err))))
 \<and> relay_loop C ucO st' (tk' # tks) =
     (if fst (relay_iteration C ucO st' tk') = Running
      then relay_loop C ucO (snd (relay_iteration C ucO st' tk')) tks
      else relay_iteration C ucO st' tk')
 \<and> (crashed P = None \<and> fst (relay_iteration C v (videoLoop P) tk) = Panicked p \<longrightarrow>
     crashed (process_turn C a v P (VideoTrack, tk)) = Some p)
 \<and> (crashed P = None \<and> fst (relay_iteration C a (audioLoop P) tk) = Panicked p \<longrightarrow>
     crashed (process_turn C a v P (AudioTrack, tk)) = Some p)
 \<and> (crashed P' = Some p \<longrightarrow> process_run C a v P' kts = P')"
proof (intro conjI impI)
  show "(fst (relay_iteration C (Some uc) st tk) = Running) =
     (\<exists>data p1 n2 b2. readResult tk = Inr data
        \<and> Unmarshal C (rtpPacket st) data = Inr p1
        \<and> MarshalTo C (p1\<lparr>PayloadType := payloadType uc\<rparr>) (data @ drop (length data) (b st))
            = Inr (n2, b2)
        \<and> n2 \<le> length b2
        \<and> (writeResult tk = None \<or> (\<exists>err. writeResult tk = Some err \<and> connection_refused err)))"
    by (rule relay_iteration_Running_iff)
  show "relay_loop C ucO st' (tk' # tks) =
     (if fst (relay_iteration C ucO st' tk') = Running
      then relay_loop C ucO (snd (relay_iteration C ucO st' tk')) tks
      else relay_iteration C ucO st' tk')"
    by (rule relay_loop_Cons)
  show "crashed (process_turn C a v P (VideoTrack, tk)) = Some p"
    if "crashed P = None \<and> fst (relay_iteration C v (videoLoop P) tk) = Panicked p"
    using that by (simp add: process_turn_panics)
  show "crashed (process_turn C a v P (AudioTrack, tk)) = Some p"
    if "crashed P = None \<and> fst (relay_iteration C a (audioLoop P) tk) = Panicked p"
    using that by (simp add: process_turn_panics)
  show "process_run C a v P' kts = P'" if "crashed P' = Some p"
    using that by (rule process_run_crashed)
qed

theorem relay_failure_policy_witness:
  "fst (relay_iteration toy_codec (Some audio_conn) (initial_relay_state []) refused_tick) = Running
 \<and> relay_loop toy_codec (Some audio_conn) (initial_relay_state []) [refused_tick, good_tick] =
     relay_loop toy_codec (Some audio_conn)
       (snd (relay_iteration toy_codec (Some audio_conn) (initial_relay_state []) refused_tick))
       [good_tick]
 \<and> crashed process0 = None
 \<and> fst (relay_iteration toy_codec (Some video_conn) (videoLoop process0) read_error_tick)
     = Panicked (PanicError (OtherError ''EOF''))
 \<and> crashed (process_turn toy_codec (Some audio_conn) (Some video_conn) process0
              (VideoTrack, read_error_tick)) = Some (PanicError (OtherError ''EOF''))
 \<and> process_run toy_codec (Some audio_conn) (Some video_conn)
      (process_turn toy_codec (Some audio_conn) (Some video_conn) process0 (VideoTrack, read_error_tick))
      [(AudioTrack, good_tick)]
     = process_turn toy_codec (Some audio_conn) (Some video_conn) process0 (VideoTrack, read_error_tick)"
proof -
  note pol = relay_failure_policy [where C = toy_codec and uc = audio_conn
      and st = "initial_relay_state []" and tk = refused_tick
      and ucO = "Some audio_conn" and st' = "initial_relay_state []" and tk' = refused_tick
      and tks = "[good_tick]"]
  have ex: "\<exists>data p1 n2 b2. readResult refused_tick = Inr data
        \<and> Unmarshal toy_codec (rtpPacket (initial_relay_state [])) data = Inr p1
        \<and> MarshalTo toy_codec (p1\<lparr>PayloadType := payloadType audio_conn\<rparr>)
             (data @ drop (length data) (b (initial_relay_state []))) = Inr (n2, b2)
        \<and> n2 \<le> length b2
        \<and> (writeResult refused_tick = None
            \<or> (\<exists>err. writeResult refused_tick = Some err \<and> connection_refused err))"
    by (simp add: toy_codec_def refused_tick_def initial_relay_state_def connection_refused_def)
  have r: "fst (relay_iteration toy_codec (Some audio_conn) (initial_relay_state []) refused_tick)
             = Running"
    using pol [THEN conjunct1] ex by (rule iffD2)
  have l: "relay_loop toy_codec (Some audio_conn) (initial_relay_state []) [refused_tick, good_tick] =
     relay_loop toy_codec (Some audio_conn)
       (snd (relay_iteration toy_codec (Some audio_conn) (initial_relay_state []) refused_tick))
       [good_tick]"
    using pol [THEN conjunct2, THEN conjunct1] r by simp
  have c0: "crashed process0 = None"
    by (rule process0_fields)
  have p: "fst (relay_iteration toy_codec (Some video_conn) (videoLoop process0) read_error_tick)
     = Panicked (PanicError (OtherError ''EOF''))"
    by (simp add: toy_read_error)
  note pol2 = relay_failure_policy [where C = toy_codec and v = "Some video_conn"
      and a = "Some audio_conn" and P = process0 and tk = read_error_tick
      and p = "PanicError (OtherError ''EOF'')"
      and P' = "process_turn toy_codec (Some audio_conn) (Some video_conn) process0
                  (VideoTrack, read_error_tick)"
      and kts = "[(AudioTrack, good_tick)]"]
  have t: "crashed (process_turn toy_codec (Some audio_conn) (Some video_conn) process0
              (VideoTrack, read_error_tick)) = Some (PanicError (OtherError ''EOF''))"
    using pol2 [THEN conjunct2, THEN conjunct2, THEN conjunct1] c0 p by blast
  have e: "process_run toy_codec (Some audio_conn) (Some video_conn)
      (process_turn toy_codec (Some audio_conn) (Some video_conn) process0 (VideoTrack, read_error_tick))
      [(AudioTrack, good_tick)]
     = process_turn toy_codec (Some audio_conn) (Some video_conn) process0 (VideoTrack, read_error_tick)"
    using pol2 [THEN conjunct2, THEN conjunct2, THEN conjunct2, THEN conjunct2] t by blast
  show ?thesis
    by (intro conjI r l c0 p t e)
qed

text \<open>
  C7, as the claim states it, fails. Alone, the audio frame is forwarded. When the video
  source fails to read first, the audio frame that arrives afterwards is not forwarded:
  the audio loop did not stay running.
\<close>

theorem panic_stops_only_its_own_loop_counterexample:
  "forwarded (audioLoop (process_run toy_codec (Some audio_conn) (Some video_conn) process0
                           [(AudioTrack, good_tick)])) = [[111, 1, 2]]
 \<and> forwarded (audioLoop (process_run toy_codec (Some audio_conn) (Some video_conn) process0
                           [(VideoTrack, read_error_tick), (AudioTrack, good_tick)])) = []"
proof -
  have 1: "forwarded (audioLoop (process_run toy_codec (Some audio_conn) (Some video_conn) process0
                           [(AudioTrack, good_tick)])) = [[111, 1, 2]]"
    by (simp add: audio_turn_good)
  have "process_run toy_codec (Some audio_conn) (Some video_conn)
          (process_turn toy_codec (Some audio_conn) (Some video_conn) process0
             (VideoTrack, read_error_tick))
          [(AudioTrack, good_tick)]
        = process_turn toy_codec (Some audio_conn) (Some video_conn) process0
            (VideoTrack, read_error_tick)"
    by (rule process_run_crashed [OF video_turn_read_error(1)])
  then have 2: "forwarded (audioLoop (process_run toy_codec (Some audio_conn) (Some video_conn) process0
                           [(VideoTrack, read_error_tick), (AudioTrack, good_tick)])) = []"
    by (simp add: video_turn_read_error process0_fields forwarded_def)
  show ?thesis
    using 1 2 by (rule conjI)
qed

text \<open>
  C8 at a failing input. With the flag \<^verbatim>\<open>RTCPIntervalMs\<close> set to 500 the ticker of the
  feedback emitter still has a period of 2000 milliseconds.
\<close>

theorem ticker_period_ignores_RTCPIntervalMs:
  "RTCPIntervalMs cfg500 = 500 \<and> ticker_period cfg500 = 2000 * Millisecond"
  by (simp add: cfg500_def default_config_def ticker_period_def)

text \<open>
  C10. For the destinations that \<^verbatim>\<open>setupMediaForwarding\<close> makes from the flags, in every
  turn of the relay loop that comes to write, the payload type of the packet that is
  encoded and written is the flag of that kind modulo 256.
\<close>

theorem forwarded_payload_type_is_flag_mod_256:
  assumes "fst (setupMediaForwarding N cfg) = (videoUDPConn, audioUDPConn)"
    and "fst (relay_iteration C (select_conn trackType audioUDPConn videoUDPConn) st tk) = Running"
  shows "unat (PayloadType (rtpPacket (snd (relay_iteration C
                 (select_conn trackType audioUDPConn videoUDPConn) st tk))))
           = unat (if trackType = ''audio'' then RTPAudioPayloadType cfg
                   else RTPVideoPayloadType cfg) mod 256
       \<and> (\<exists>data n2 b2. readResult tk = Inr data
           \<and> MarshalTo C (rtpPacket (snd (relay_iteration C
                 (select_conn trackType audioUDPConn videoUDPConn) st tk)))
                 (data @ drop (length data) (b st)) = Inr (n2, b2)
           \<and> writes (snd (relay_iteration C (select_conn trackType audioUDPConn videoUDPConn) st tk))
               = writes st @ [(take n2 b2, writeResult tk)])"
proof -
  obtain uc where uc: "select_conn trackType audioUDPConn videoUDPConn = Some uc"
    using assms(2) relay_iteration_nil [of C st tk]
    by (cases "select_conn trackType audioUDPConn videoUDPConn") auto
  have run: "fst (relay_iteration C (Some uc) st tk) = Running"
    using assms(2) uc by simp
  have "payloadType uc = uint8 (if trackType = ''audio'' then RTPAudioPayloadType cfg
                                else RTPVideoPayloadType cfg)"
    using uc setup_payloadType [OF assms(1)]
    by (auto simp add: select_conn_def split: if_splits)
  then have "unat (PayloadType (rtpPacket (snd (relay_iteration C (Some uc) st tk))))
      = unat (if trackType = ''audio'' then RTPAudioPayloadType cfg
              else RTPVideoPayloadType cfg) mod 256"
    using relay_iteration_packet(1) [OF run] by (simp only: unat_uint8)
  with relay_iteration_packet(2) [OF run] show ?thesis
    unfolding uc by blast
qed

theorem forwarded_payload_type_is_flag_mod_256_witness:
  "fst (setupMediaForwarding stub_net cfg381) = (Some video381, Some audio381)
 \<and> fst (relay_iteration toy_codec (select_conn ''video'' (Some audio381) (Some video381))
          (initial_relay_state []) good_tick) = Running
 \<and> RTPVideoPayloadType cfg381 = 381
 \<and> unat (PayloadType (rtpPacket (snd (relay_iteration toy_codec
            (select_conn ''video'' (Some audio381) (Some video381)) (initial_relay_state []) good_tick))))
     = 125"
proof -
  have h1: "fst (setupMediaForwarding stub_net cfg381) = (Some video381, Some audio381)"
    by (simp add: setup_stub_net video381_def audio381_def)
  have h2: "fst (relay_iteration toy_codec (select_conn ''video'' (Some audio381) (Some video381))
          (initial_relay_state []) good_tick) = Running"
    using toy_iteration [of good_tick "initial_relay_state []" video381]
    by (simp add: select_conn_def good_tick_def initial_fields)
  have h3: "RTPVideoPayloadType cfg381 = 381"
    by (simp add: cfg381_def default_config_def)
  have "unat (PayloadType (rtpPacket (snd (relay_iteration toy_codec
            (select_conn ''video'' (Some audio381) (Some video381)) (initial_relay_state []) good_tick))))
     = unat (381 :: 64 word) mod 256"
    using forwarded_payload_type_is_flag_mod_256 [OF h1 h2, THEN conjunct1] h3 by simp
  then have h4: "unat (PayloadType (rtpPacket (snd (relay_iteration toy_codec
            (select_conn ''video'' (Some audio381) (Some video381)) (initial_relay_state []) good_tick))))
     = 125"
    by simp
  show ?thesis
    by (intro conjI h1 h2 h3 h4)
qed

end
